theory Spec2Isabelle
  imports Complex_Main "HOL-Library.Char_ord" "HOL-Library.List_Lexorder"
begin

section \<open>Hackathon judging: the score store, submission and the ranking report\<close>

text \<open>
  A shallow embedding of \<^verbatim>\<open>hackathon_judge.py\<close>: \<^verbatim>\<open>calculate_final_score\<close>,
  \<^verbatim>\<open>submit_score\<close>, \<^verbatim>\<open>generate_report\<close>, the start-up initialisation of
  \<^verbatim>\<open>scores.csv\<close> and the constant \<^verbatim>\<open>TEAM_NAMES\<close>.

  Conventions of the model:
  \<^item> Python strings are byte strings (\<open>string\<close>, UTF-8); non-ASCII glyphs of the
    messages are written as their bytes. \<^verbatim>\<open>str.strip\<close> and \<^verbatim>\<open>str.lower\<close> are
    modelled on ASCII: the ASCII white space characters and the letters A to Z.
  \<^item> Python numbers (the ratings, their means and the scores) are exact rationals;
    binary floating-point rounding error is not modelled.
  \<^item> The file \<^verbatim>\<open>scores.csv\<close> is a value of type \<open>csv_file\<close>; the text encoding
    of the table is not modelled, a \<open>Table\<close> is what \<^verbatim>\<open>pd.read_csv\<close> yields.
  \<^item> A Python exception is a value of type \<open>exn\<close>; a function that may raise returns
    \<open>exn + 'a\<close> with \<open>Inl\<close> for the raised exception.
  \<^item> The current time is a parameter \<open>now\<close>, already formatted.
\<close>

subsection \<open>Strings\<close>

definition is_space :: "char \<Rightarrow> bool" where
  "is_space c \<longleftrightarrow> (of_char c :: nat) \<in> {9, 10, 11, 12, 13, 28, 29, 30, 31, 32}"

definition strip :: "string \<Rightarrow> string" where
  "strip s = rev (dropWhile is_space (rev (dropWhile is_space s)))"

definition lower_char :: "char \<Rightarrow> char" where
  "lower_char c =
     (if 65 \<le> (of_char c :: nat) \<and> (of_char c :: nat) \<le> 90
      then char_of ((of_char c :: nat) + 32) else c)"

definition lower :: "string \<Rightarrow> string" where
  "lower s = map lower_char s"

subsection \<open>Numbers\<close>

text \<open>Python's \<^verbatim>\<open>round(x, 2)\<close>: to the nearest hundredth, ties to the even neighbour.\<close>

definition round_half_even :: "rat \<Rightarrow> int" where
  "round_half_even x =
     (let f = \<lfloor>x\<rfloor>; r = x - of_int f
      in if r < 1 / 2 then f
         else if 1 / 2 < r then f + 1
         else if even f then f else f + 1)"

definition round2 :: "rat \<Rightarrow> rat" where
  "round2 x = of_int (round_half_even (x * 100)) / 100"

text \<open>Python's \<^verbatim>\<open>int(x)\<close> on a float: truncation towards zero.\<close>

definition py_int :: "rat \<Rightarrow> int" where
  "py_int x = (if 0 \<le> x then \<lfloor>x\<rfloor> else \<lceil>x\<rceil>)"

subsection \<open>The weighted score\<close>

definition calculate_final_score :: "rat \<Rightarrow> rat \<Rightarrow> rat \<Rightarrow> rat \<Rightarrow> rat" where
  "calculate_final_score g u t p =
     round2 (((g * 0.30) + (u * 0.30) + (t * 0.20) + (p * 0.20)) * 20)"


subsection \<open>The score store\<close>

record ScoreRecord =
  timestamp :: string
  judge_name :: string
  team_name :: string
  go_live :: rat
  usefulness :: rat
  taste :: rat
  problem_statement :: rat

text \<open>
  The states of \<^verbatim>\<open>scores.csv\<close> that the two operations tell apart:
  no file; a file of zero bytes; a file that cannot be read or parsed (the text of the
  exception is carried along); a parsed table with rows but without the expected
  columns (\<open>Misshapen n\<close> has \<open>Suc n\<close> rows); a table with the seven columns of
  \<^verbatim>\<open>COLUMNS\<close> (header only when the list is empty).
\<close>

datatype csv_file =
    Absent
  | EmptyFile
  | Unreadable string
  | Misshapen nat
  | Table "ScoreRecord list"

datatype exn =
    FileNotFoundError string
  | EmptyDataError string
  | KeyError string
  | OSError string

text \<open>\<^verbatim>\<open>str(e)\<close>; the text of a \<^verbatim>\<open>KeyError\<close> is the quoted key.\<close>

fun str :: "exn \<Rightarrow> string" where
  "str (FileNotFoundError m) = m"
| "str (EmptyDataError m) = m"
| "str (KeyError k) = [CHR 0x27] @ k @ [CHR 0x27]"
| "str (OSError m) = m"

datatype frame = Frame "ScoreRecord list" | Foreign nat

text \<open>
  The environment of a call: the file and whether writing it fails (with the text of
  the exception that \<^verbatim>\<open>to_csv\<close> raises then).
\<close>

record world =
  scores_csv :: csv_file
  write_fault :: "string option"

definition no_such_file :: string where
  "no_such_file =
     ''[Errno 2] No such file or directory: '' @ [CHR 0x27] @ ''scores.csv'' @ [CHR 0x27]"

fun read_csv :: "csv_file \<Rightarrow> exn + frame" where
  "read_csv Absent =
     Inl (FileNotFoundError no_such_file)"
| "read_csv EmptyFile = Inl (EmptyDataError ''No columns to parse from file'')"
| "read_csv (Unreadable m) = Inl (OSError m)"
| "read_csv (Misshapen n) = Inr (Foreign n)"
| "read_csv (Table rows) = Inr (Frame rows)"

definition to_csv :: "world \<Rightarrow> ScoreRecord list \<Rightarrow> exn + world" where
  "to_csv w rows =
     (case write_fault w of
        Some m \<Rightarrow> Inl (OSError m)
      | None \<Rightarrow> Inr (w\<lparr>scores_csv := Table rows\<rparr>))"

text \<open>
  Start-up (the module's top level): an absent file or a file of zero bytes is replaced
  by the header alone. A failure here is outside the two operations.
\<close>

definition initialise :: "world \<Rightarrow> exn + world" where
  "initialise w =
     (case scores_csv w of
        Absent \<Rightarrow> to_csv w []
      | EmptyFile \<Rightarrow> to_csv w []
      | _ \<Rightarrow> Inr w)"

subsection \<open>Submitting a score\<close>

definition out_of_range :: "rat list \<Rightarrow> bool" where
  "out_of_range scores \<longleftrightarrow> list_ex (\<lambda>score. score < 0 \<or> 5 < score) scores"

text \<open>The row mask of the duplicate check: same judge up to letter case, same team.\<close>

definition is_duplicate :: "string \<Rightarrow> string \<Rightarrow> ScoreRecord \<Rightarrow> bool" where
  "is_duplicate judge team r \<longleftrightarrow>
     lower (judge_name r) = lower (strip judge) \<and> team_name r = team"

fun remove_previous :: "frame \<Rightarrow> string \<Rightarrow> string \<Rightarrow> exn + ScoreRecord list" where
  "remove_previous (Foreign n) judge team = Inl (KeyError ''judge_name'')"
| "remove_previous (Frame rows) judge team =
     (if 0 < length rows then
        (let duplicate = filter (is_duplicate judge team) rows
         in if duplicate \<noteq> [] then Inr (filter (\<lambda>r. \<not> is_duplicate judge team r) rows)
            else Inr rows)
      else Inr rows)"

definition new_score ::
  "string \<Rightarrow> string \<Rightarrow> string \<Rightarrow> rat \<Rightarrow> rat \<Rightarrow> rat \<Rightarrow> rat \<Rightarrow> ScoreRecord" where
  "new_score now judge team g u t p =
     \<lparr>timestamp = now, judge_name = strip judge, team_name = strip team,
      go_live = g, usefulness = u, taste = t, problem_statement = p\<rparr>"

definition rating_message :: string where
  "rating_message = ''All scores must be between 0 and 5!''"

definition success_message :: "string \<Rightarrow> string" where
  "success_message team =
     [CHR 0xE2, CHR 0x9C, CHR 0x85] @ '' Score submitted successfully for team '' @ team @ ''!''"

text \<open>The body of the \<^verbatim>\<open>try\<close> block: the message and the world it leaves, or the exception.\<close>

definition submit_try ::
  "string \<Rightarrow> world \<Rightarrow> string \<Rightarrow> string \<Rightarrow> rat \<Rightarrow> rat \<Rightarrow> rat \<Rightarrow> rat \<Rightarrow> exn + string \<times> world" where
  "submit_try now w judge team g u t p =
     (case (case read_csv (scores_csv w) of
              Inl (EmptyDataError m) \<Rightarrow> Inr (Frame [])
            | other \<Rightarrow> other) of
        Inl e \<Rightarrow> Inl e
      | Inr scores_df \<Rightarrow>
          if out_of_range [g, u, t, p] then Inr (rating_message, w)
          else
            (case remove_previous scores_df judge team of
               Inl e \<Rightarrow> Inl e
             | Inr kept \<Rightarrow>
                 (case to_csv w (kept @ [new_score now judge team g u t p]) of
                    Inl e \<Rightarrow> Inl e
                  | Inr w' \<Rightarrow> Inr (success_message team, w'))))"

text \<open>
  The operation: the pair it returns (message, echoed judge name) and the world after
  the call. \<open>Inl\<close> would be an exception that leaves the operation.
\<close>

definition submit_score ::
  "string \<Rightarrow> world \<Rightarrow> string \<Rightarrow> string \<Rightarrow> rat \<Rightarrow> rat \<Rightarrow> rat \<Rightarrow> rat
     \<Rightarrow> exn + (string \<times> string) \<times> world" where
  "submit_score now w judge team g u t p =
     (if strip judge = [] then Inr ((''Please enter your name!'', judge), w)
      else if team = [] then Inr ((''Please select a team!'', judge), w)
      else
        (case submit_try now w judge team g u t p of
           Inr (message, w') \<Rightarrow> Inr ((message, judge), w')
         | Inl e \<Rightarrow> Inr ((''Error submitting score: '' @ str e, judge), w)))"

subsection \<open>The ranking report\<close>

definition TEAM_NAMES :: "string list" where
  "TEAM_NAMES =
     [''tehlaninayan7'', ''kya@karu.mai'', ''Sugarplum'', ''Bob the Builders AI'',
      ''permissionless'', ''LLM Ninjas'', ''MailMatch'', ''Ironold'', ''ChaiBiscuit'',
      ''Dostwriter'', ''Neural Babel'', ''Fluid'', ''Team 1'', ''fiction AI'', ''SOLOYOLO'']"

text \<open>
  One row of \<^verbatim>\<open>team_stats\<close>: the index (the team), the number of rows of the group,
  the four means rounded to two decimals, and the final score.
\<close>

record team_stats =
  team_key :: string
  num_judges :: nat
  go_live_mean :: rat
  usefulness_mean :: rat
  taste_mean :: rat
  problem_statement_mean :: rat
  final_score :: rat

text \<open>The mean of a column of a group; a group of \<^verbatim>\<open>groupby\<close> has at least one row.\<close>

definition mean :: "rat list \<Rightarrow> rat" where
  "mean xs = sum_list xs / of_nat (length xs)"

text \<open>\<^verbatim>\<open>groupby('team_name')\<close>: one group per distinct team, in ascending order of the key.\<close>

definition team_index :: "ScoreRecord list \<Rightarrow> string list" where
  "team_index rows = sort (remdups (map team_name rows))"

definition aggregate :: "ScoreRecord list \<Rightarrow> string \<Rightarrow> team_stats" where
  "aggregate rows name =
     (let grp = filter (\<lambda>r. team_name r = name) rows;
          gl = round2 (mean (map go_live grp));
          us = round2 (mean (map usefulness grp));
          ta = round2 (mean (map taste grp));
          ps = round2 (mean (map problem_statement grp))
      in \<lparr>team_key = name, num_judges = length grp,
          go_live_mean = gl, usefulness_mean = us, taste_mean = ta,
          problem_statement_mean = ps,
          final_score = calculate_final_score gl us ta ps\<rparr>)"

text \<open>
  \<^verbatim>\<open>sort_values('final_score', ascending=False)\<close>. The order among equal scores is
  not fixed by the source; the model keeps the group order there.
\<close>

definition ranked_stats :: "ScoreRecord list \<Rightarrow> team_stats list" where
  "ranked_stats rows = sort_key (\<lambda>s. - final_score s) (map (aggregate rows) (team_index rows))"

text \<open>
  The report text is modelled by its parts, in the order in which they are appended:
  the heading; one part per ranked team with the rank, the team, the final score, the
  number of judges and, per criterion, the label, the mean and the number of filled bar
  segments; the summary (teams evaluated, scores submitted, number of judges, average and
  highest final score, \<open>None\<close> for the not-a-number of an empty column); the teams not
  yet scored, when there are any. Glyphs and number formatting are not modelled.
\<close>

datatype part =
    Heading
  | Ranked nat string rat nat "(string \<times> rat \<times> int) list"
  | Summary nat nat nat "rat option" "rat option"
  | NotYetScored "string list"

datatype report = Message string | Rankings "part list"

definition ranked_part :: "nat \<times> team_stats \<Rightarrow> part" where
  "ranked_part p =
     (case p of (idx, stats) \<Rightarrow>
        Ranked idx (team_key stats) (final_score stats) (num_judges stats)
          [(''Go Live'', go_live_mean stats, py_int (go_live_mean stats * 4)),
           (''Usefulness'', usefulness_mean stats, py_int (usefulness_mean stats * 4)),
           (''Taste'', taste_mean stats, py_int (taste_mean stats * 4)),
           (''Problem Stmt'', problem_statement_mean stats,
              py_int (problem_statement_mean stats * 4))])"

definition average :: "rat list \<Rightarrow> rat option" where
  "average xs = (if xs = [] then None else Some (mean xs))"

definition highest :: "rat list \<Rightarrow> rat option" where
  "highest xs = (case xs of [] \<Rightarrow> None | x # rest \<Rightarrow> Some (fold max rest x))"

definition nunique :: "string list \<Rightarrow> nat" where
  "nunique names = length (remdups names)"

definition unscored_teams :: "team_stats list \<Rightarrow> string list" where
  "unscored_teams stats = remdups (filter (\<lambda>name. name \<notin> set (map team_key stats)) TEAM_NAMES)"

definition compose_report :: "ScoreRecord list \<Rightarrow> part list" where
  "compose_report rows =
     (let stats = ranked_stats rows
      in [Heading]
         @ map ranked_part (zip (map Suc [0 ..< length stats]) stats)
         @ [Summary (length stats) (length rows) (nunique (map judge_name rows))
              (average (map final_score stats)) (highest (map final_score stats))]
         @ (if unscored_teams stats \<noteq> [] then [NotYetScored (sort (unscored_teams stats))]
            else []))"

definition report_try :: "world \<Rightarrow> exn + report" where
  "report_try w =
     (case read_csv (scores_csv w) of
        Inl e \<Rightarrow> Inl e
      | Inr (Foreign n) \<Rightarrow> Inl (KeyError ''team_name'')
      | Inr (Frame rows) \<Rightarrow>
          if length rows = 0 then Inr (Message ''No scores submitted yet!'')
          else Inr (Rankings (compose_report rows)))"

text \<open>The operation; \<open>Inl\<close> would be an exception that leaves it.\<close>

definition generate_report :: "world \<Rightarrow> exn + report" where
  "generate_report w =
     (case report_try w of
        Inr r \<Rightarrow> Inr r
      | Inl e \<Rightarrow> Inr (Message (''Error generating report: '' @ str e)))"



fun number_of_judges :: "part list \<Rightarrow> nat list" where
  "number_of_judges [] = []"
| "number_of_judges (Summary nteams nscores njudges avg hi # ps) = njudges # number_of_judges ps"
| "number_of_judges (_ # ps) = number_of_judges ps"

subsection \<open>Conditions on the environment and on the store\<close>




subsection \<open>Example data\<close>

text \<open>Stores, time stamps and a report used to run the operations on concrete inputs.\<close>

definition fresh_store :: world where
  "fresh_store = \<lparr>scores_csv = Table [], write_fault = None\<rparr>"

definition missing_store :: world where
  "missing_store = \<lparr>scores_csv = Absent, write_fault = None\<rparr>"


definition morning :: string where
  "morning = ''2025-03-01 10:00:00''"

definition later :: string where
  "later = ''2025-03-01 10:05:00''"





definition one_spelling :: world where
  "one_spelling =
     \<lparr>scores_csv = Table
        [\<lparr>timestamp = morning, judge_name = ''Alice'', team_name = ''Fluid'',
          go_live = 4, usefulness = 4, taste = 4, problem_statement = 4\<rparr>],
      write_fault = None\<rparr>"

definition two_spellings :: world where
  "two_spellings =
     \<lparr>scores_csv = Table
        [\<lparr>timestamp = morning, judge_name = ''Alice'', team_name = ''Fluid'',
          go_live = 4, usefulness = 4, taste = 4, problem_statement = 4\<rparr>,
         \<lparr>timestamp = later, judge_name = ''alice'', team_name = ''Ironold'',
          go_live = 5, usefulness = 4, taste = 5, problem_statement = 4\<rparr>],
      write_fault = None\<rparr>"




section \<open>Properties of submission\<close>


























text \<open>
  Claim C4. For every input and every state of the environment, \<^verbatim>\<open>submit_score\<close>
  and \<^verbatim>\<open>generate_report\<close> return a result and raise nothing (the result is never
  \<open>Inl\<close>); an exception raised inside \<^verbatim>\<open>submit_score\<close> becomes the message
  \<open>Error submitting score:\<close> followed by its text, with the environment unchanged, and an
  exception raised inside \<^verbatim>\<open>generate_report\<close> becomes the message
  \<open>Error generating report:\<close> followed by its text.
\<close>

theorem operations_never_raise:
  "(\<exists>message w'. submit_score now w judge team g u t p = Inr ((message, judge), w'))
   \<and> (\<exists>r. generate_report w = Inr r)
   \<and> (\<forall>e. strip judge \<noteq> [] \<and> team \<noteq> [] \<and> submit_try now w judge team g u t p = Inl e
          \<longrightarrow> submit_score now w judge team g u t p =
                Inr ((''Error submitting score: '' @ str e, judge), w))
   \<and> (\<forall>e. report_try w = Inl e
          \<longrightarrow> generate_report w = Inr (Message (''Error generating report: '' @ str e)))"
proof (intro conjI allI impI)
  show "\<exists>message w'. submit_score now w judge team g u t p = Inr ((message, judge), w')"
    by (cases "submit_try now w judge team g u t p")
       (auto simp: submit_score_def split: prod.splits)
  show "\<exists>r. generate_report w = Inr r"
    by (cases "report_try w") (simp_all add: generate_report_def)
next
  fix e
  assume "strip judge \<noteq> [] \<and> team \<noteq> [] \<and> submit_try now w judge team g u t p = Inl e"
  then show "submit_score now w judge team g u t p =
      Inr ((''Error submitting score: '' @ str e, judge), w)"
    by (simp add: submit_score_def)
next
  fix e
  assume "report_try w = Inl e"
  then show "generate_report w = Inr (Message (''Error generating report: '' @ str e))"
    by (simp add: generate_report_def)
qed

theorem operations_never_raise_witness:
  "submit_try morning missing_store ''Bo'' ''Ironold'' 1 1 1 1 = Inl (FileNotFoundError no_such_file)
   \<and> submit_score morning missing_store ''Bo'' ''Ironold'' 1 1 1 1 =
       Inr ((''Error submitting score: '' @ str (FileNotFoundError no_such_file), ''Bo''), missing_store)
   \<and> report_try missing_store = Inl (FileNotFoundError no_such_file)
   \<and> generate_report missing_store =
       Inr (Message (''Error generating report: '' @ str (FileNotFoundError no_such_file)))"
proof -
  have a: "strip ''Bo'' \<noteq> []" by code_simp
  have b: "''Ironold'' \<noteq> []" by simp
  have c: "submit_try morning missing_store ''Bo'' ''Ironold'' 1 1 1 1 = Inl (FileNotFoundError no_such_file)"
    by (simp add: submit_try_def missing_store_def)
  have d: "report_try missing_store = Inl (FileNotFoundError no_such_file)"
    by (simp add: report_try_def missing_store_def)
  from operations_never_raise [of morning missing_store "''Bo''" "''Ironold''" 1 1 1 1] a b c d
  show ?thesis by blast
qed

section \<open>Properties of the final score\<close>




section \<open>Properties of the report\<close>



lemma number_of_judges_append:
  "number_of_judges (xs @ ys) = number_of_judges xs @ number_of_judges ys"
  by (induction xs rule: number_of_judges.induct) simp_all



lemma number_of_judges_ranked_parts: "number_of_judges (map ranked_part zs) = []"
  by (induction zs) (auto simp: ranked_part_def)



lemma number_of_judges_compose_report:
  "number_of_judges (compose_report rows) = [nunique (map judge_name rows)]"
  by (simp add: compose_report_def Let_def number_of_judges_append number_of_judges_ranked_parts)






text \<open>
  Claim C5, as amended. On a store that holds the header and no record,
  \<^verbatim>\<open>generate_report\<close> returns the fixed message \<open>No scores submitted yet!\<close>. Start-up
  turns an absent file and a file of zero bytes into such a store when the file can be
  written, so that after start-up the report of a store without records is the fixed
  message. On a store that is absent when \<^verbatim>\<open>generate_report\<close> is called, the result
  is the error message of the failed read.
\<close>

theorem header_only_store_report:
  "generate_report (w\<lparr>scores_csv := Table []\<rparr>) = Inr (Message ''No scores submitted yet!'')
   \<and> ((scores_csv w = Absent \<or> scores_csv w = EmptyFile \<or> scores_csv w = Table [])
         \<and> write_fault w = None
        \<longrightarrow> (\<exists>w'. initialise w = Inr w' \<and> scores_csv w' = Table []
                 \<and> generate_report w' = Inr (Message ''No scores submitted yet!'')))
   \<and> (scores_csv w = Absent
        \<longrightarrow> generate_report w =
              Inr (Message (''Error generating report: ''
                     @ str (FileNotFoundError no_such_file))))"
proof (intro conjI impI)
  show "generate_report (w\<lparr>scores_csv := Table []\<rparr>) = Inr (Message ''No scores submitted yet!'')"
    by (simp add: generate_report_def report_try_def)
next
  assume a: "(scores_csv w = Absent \<or> scores_csv w = EmptyFile \<or> scores_csv w = Table [])
     \<and> write_fault w = None"
  then have "initialise w = Inr (w\<lparr>scores_csv := Table []\<rparr>)"
    by (auto simp: initialise_def to_csv_def)
  then show "\<exists>w'. initialise w = Inr w' \<and> scores_csv w' = Table []
      \<and> generate_report w' = Inr (Message ''No scores submitted yet!'')"
    by (simp add: generate_report_def report_try_def)
next
  assume "scores_csv w = Absent"
  then show "generate_report w =
      Inr (Message (''Error generating report: ''
             @ str (FileNotFoundError no_such_file)))"
    by (simp add: generate_report_def report_try_def)
qed

theorem header_only_store_report_witness:
  "\<exists>w'. initialise missing_store = Inr w' \<and> scores_csv w' = Table []
        \<and> generate_report w' = Inr (Message ''No scores submitted yet!'')"
  using header_only_store_report [of missing_store] by (simp add: missing_store_def)

text \<open>
  With no file at the time of the call, the report is an error message and not the
  message of the empty store.
\<close>

theorem absent_store_report_counterexample:
  "generate_report missing_store =
     Inr (Message (''Error generating report: '' @ str (FileNotFoundError no_such_file)))
   \<and> generate_report missing_store \<noteq> Inr (Message ''No scores submitted yet!'')"
  by code_simp

text \<open>
  Claim C7 does not hold of the code: the summary counts the distinct values of the column
  \<^verbatim>\<open>judge_name\<close> as they are written. After judge \<open>Alice\<close> has scored one team and
  judge \<open>alice\<close> another (two successful submissions, the names equal up to letter
  case), the report gives 2 as the number of judges.
\<close>

theorem judges_counted_by_exact_name:
  "lower ''Alice'' = lower ''alice''
   \<and> submit_score morning fresh_store ''Alice'' ''Fluid'' 4 4 4 4 =
       Inr ((success_message ''Fluid'', ''Alice''), one_spelling)
   \<and> submit_score later one_spelling ''alice'' ''Ironold'' 5 4 5 4 =
       Inr ((success_message ''Ironold'', ''alice''), two_spellings)
   \<and> (case generate_report two_spellings of
         Inr (Rankings parts) \<Rightarrow> number_of_judges parts
       | _ \<Rightarrow> []) = [2]"
  by code_simp











end
